theory Spec2Isabelle
  imports Complex_Main
begin

section \<open>Numbers and text\<close>

text \<open>
  The numbers of both runtimes are doubles. A finite double is carried as the real it
  denotes; \<open>NaN\<close> and the two infinities are values of their own. The screens only
  compare parsed numbers with whole constants, which is exact; the backend subtracts and
  multiplies, and there every result is rounded (see the section on the backend).

  The conversions from text (\<open>float\<close> in Python, \<open>parseFloat\<close> in JavaScript) are builtins
  of the two runtimes. The embedded functions take the conversion as their first argument,
  and every general theorem holds for any conversion. Concrete inputs are evaluated with
  \<open>decimal_literal\<close>: an optional minus sign, one or more digits and an optional fraction
  of one or more digits. The texts evaluated below write whole numbers, which both
  builtins return as written, and \<open>abc\<close> and the empty text, on which both fail.
\<close>

definition is_digit :: "char \<Rightarrow> bool" where
  "is_digit c = (48 \<le> (of_char c :: nat) \<and> (of_char c :: nat) \<le> 57)"

definition digit_val :: "char \<Rightarrow> nat" where
  "digit_val c = of_char c - 48"

definition digits_val :: "string \<Rightarrow> nat" where
  "digits_val ds = foldl (\<lambda>a c. 10 * a + digit_val c) 0 ds"

definition unsigned_decimal :: "string \<Rightarrow> real option" where
  "unsigned_decimal s =
     (let ip = takeWhile is_digit s; rest = dropWhile is_digit s in
      if ip = [] then None
      else if rest = [] then Some (real (digits_val ip))
      else if hd rest = CHR ''.'' \<and> tl rest \<noteq> [] \<and> list_all is_digit (tl rest)
        then Some (real (digits_val ip) + real (digits_val (tl rest)) / 10 ^ length (tl rest))
      else None)"

definition decimal_literal :: "string \<Rightarrow> real option" where
  "decimal_literal s =
     (case s of
        [] \<Rightarrow> None
      | c # t \<Rightarrow> if c = CHR ''-'' then map_option uminus (unsigned_decimal t)
                 else unsigned_decimal s)"


section \<open>backend/controllers/listing\_calculator: the grant and the marker colour\<close>

text \<open>
  The module is present as CPython 3.11 bytecode. Its two functions, read from the
  instruction stream, are
  \<^verbatim>\<open>
  def calculate_grant(salary, flat_type):
      singles_grant = 0
      enhanced_grant = 0
      if salary <= 7000:
          if flat_type in ("2-Room", "3-Room", "4-Room"):
              singles_grant = 40000
          elif flat_type == "5-Room":
              singles_grant = 25000
          if salary <= 4500:
              enhanced_grant = 60000
      total_grants = singles_grant + enhanced_grant
      return total_grants

  def get_marker_color(preferred_price, listing_price, salary, flat_type, cpf_oa_balance):
      try:
          preferred_price = float(preferred_price)
          listing_price = float(listing_price)
          cpf_oa_balance = float(cpf_oa_balance)
      except ValueError:
          return 'gray'
      total_grants = calculate_grant(salary, flat_type)
      adjusted_price = listing_price - total_grants - cpf_oa_balance
      if adjusted_price <= preferred_price:
          return 'green'
      elif preferred_price < adjusted_price <= preferred_price * 1.05:
          return 'yellow'
      else:
          return 'red'
  \<close>
  The instructions, the names and the constants \<open>0\<close> and \<open>7000\<close> are intact in the file.
  Five constants have bytes that the stored file no longer shows; they are the
  definitions that follow.
\<close>

subsection \<open>Python values\<close>

text \<open>
  A Python float is a double: a finite value, one of the two infinities, or \<open>nan\<close>. The
  finite values are carried as the reals they denote. The prices and the salary reach the
  two functions as floats, whole numbers, text or \<open>None\<close>.
\<close>

datatype pyfloat = Fin real | PosInf | NegInf | NaN

datatype pyval = PyFloat pyfloat | PyInt int | PyStr string | PyNone

abbreviation PyNum :: "real \<Rightarrow> pyval" where
  "PyNum r \<equiv> PyFloat (Fin r)"

datatype pyerr = TypeError | ValueError | OverflowError

text \<open>
  The arithmetic of doubles is the runtime's. Each operation computes the exact result
  and rounds it to a double; the rounding \<open>rnd\<close>, from the exact real to the double
  (nearest, ties to even, an infinity beyond the range), is an argument of the embedded
  functions, and every general theorem holds for any rounding. The special values follow
  IEEE 754; the sign of a zero is not kept, since no comparison can see it.
\<close>

fun float_sub :: "(real \<Rightarrow> pyfloat) \<Rightarrow> pyfloat \<Rightarrow> pyfloat \<Rightarrow> pyfloat" where
  "float_sub rnd NaN y = NaN"
| "float_sub rnd x NaN = NaN"
| "float_sub rnd (Fin a) (Fin b) = rnd (a - b)"
| "float_sub rnd (Fin a) PosInf = NegInf"
| "float_sub rnd (Fin a) NegInf = PosInf"
| "float_sub rnd PosInf PosInf = NaN"
| "float_sub rnd PosInf y = PosInf"
| "float_sub rnd NegInf NegInf = NaN"
| "float_sub rnd NegInf y = NegInf"

fun float_mul :: "(real \<Rightarrow> pyfloat) \<Rightarrow> pyfloat \<Rightarrow> pyfloat \<Rightarrow> pyfloat" where
  "float_mul rnd NaN y = NaN"
| "float_mul rnd x NaN = NaN"
| "float_mul rnd (Fin a) (Fin b) = rnd (a * b)"
| "float_mul rnd (Fin a) PosInf = (if a = 0 then NaN else if 0 < a then PosInf else NegInf)"
| "float_mul rnd (Fin a) NegInf = (if a = 0 then NaN else if 0 < a then NegInf else PosInf)"
| "float_mul rnd PosInf (Fin b) = (if b = 0 then NaN else if 0 < b then PosInf else NegInf)"
| "float_mul rnd NegInf (Fin b) = (if b = 0 then NaN else if 0 < b then NegInf else PosInf)"
| "float_mul rnd PosInf PosInf = PosInf"
| "float_mul rnd PosInf NegInf = NegInf"
| "float_mul rnd NegInf PosInf = NegInf"
| "float_mul rnd NegInf NegInf = PosInf"

fun float_le :: "pyfloat \<Rightarrow> pyfloat \<Rightarrow> bool" where
  "float_le NaN y = False"
| "float_le x NaN = False"
| "float_le (Fin a) (Fin b) = (a \<le> b)"
| "float_le (Fin a) PosInf = True"
| "float_le (Fin a) NegInf = False"
| "float_le PosInf PosInf = True"
| "float_le PosInf y = False"
| "float_le NegInf y = True"

fun float_lt :: "pyfloat \<Rightarrow> pyfloat \<Rightarrow> bool" where
  "float_lt NaN y = False"
| "float_lt x NaN = False"
| "float_lt (Fin a) (Fin b) = (a < b)"
| "float_lt (Fin a) PosInf = True"
| "float_lt (Fin a) NegInf = False"
| "float_lt PosInf y = False"
| "float_lt NegInf NegInf = False"
| "float_lt NegInf y = True"

text \<open>
  Concrete inputs are evaluated where nothing is to round: every exact result is a double
  itself (whole numbers below \<open>2^53\<close>, and products of a power of two), and the rounding
  returns it. \<open>float_decimal\<close> is \<open>float\<close> on the decimal texts that write such numbers;
  on the text \<open>abc\<close> it fails, as \<open>float\<close> does.
\<close>

definition round_exact :: "real \<Rightarrow> pyfloat" where
  "round_exact r = Fin r"

definition float_decimal :: "string \<Rightarrow> pyfloat option" where
  "float_decimal s = map_option Fin (decimal_literal s)"

subsection \<open>The constants\<close>

text \<open>
  Modelled from the spec: the singles grant of a 2-, 3- or 4-room flat. The constant of the
  bytecode keeps its low byte \<open>0x40\<close> and its two zero high bytes; the spec and the
  preferences screen give 40000 (\<open>0x9C40\<close>).
\<close>

definition singles_grant_2_to_4_room :: int where
  "singles_grant_2_to_4_room = 40000"

text \<open>
  Modelled from the spec: the singles grant of a 5-room flat. The constant of the bytecode
  keeps its second byte \<open>0x61\<close>; the spec and the preferences screen give 25000 (\<open>0x61A8\<close>).
\<close>

definition singles_grant_5_room :: int where
  "singles_grant_5_room = 25000"

text \<open>
  Modelled from the spec: the salary ceiling of the enhanced grant. The constant of the
  bytecode keeps its second byte \<open>0x11\<close>; the spec and the preferences screen give 4500
  (\<open>0x1194\<close>).
\<close>

definition enhanced_grant_ceiling :: real where
  "enhanced_grant_ceiling = 4500"

text \<open>
  Modelled from the spec: the enhanced grant. The constant of the bytecode keeps its low
  byte \<open>0x60\<close>; the spec and the preferences screen give 60000 (\<open>0xEA60\<close>).
\<close>

definition enhanced_grant_amount :: int where
  "enhanced_grant_amount = 60000"

text \<open>
  Modelled from the spec: the factor of the yellow band. The float constant of the bytecode
  keeps only its last byte \<open>0x3F\<close>; the spec gives 1.05 and the docstring of
  \<open>get_marker_color\<close> says "within 5%". A float constant is a double: the one nearest to
  1.05 is \<open>0x3FF0CCCCCCCCCCCD\<close>, that is \<open>4728779608739021 / 2^52\<close>, a little above 1.05.
\<close>

definition tolerance_factor :: real where
  "tolerance_factor = 4728779608739021 / 4503599627370496"

subsection \<open>The two functions\<close>

text \<open>\<open>float(x)\<close>: a float is returned as it is; a whole number is rounded to a double and
  raises \<open>OverflowError\<close> beyond the range; a text is parsed (the parser may return an
  infinity or \<open>nan\<close>, as \<open>float\<close> does on the texts \<open>inf\<close> and \<open>nan\<close>) or raises
  \<open>ValueError\<close>; \<open>None\<close> raises \<open>TypeError\<close>.\<close>

definition py_float ::
  "(real \<Rightarrow> pyfloat) \<Rightarrow> (string \<Rightarrow> pyfloat option) \<Rightarrow> pyval \<Rightarrow> pyerr + pyfloat" where
  "py_float rnd parse x =
     (case x of
        PyFloat f \<Rightarrow> Inr f
      | PyInt i \<Rightarrow> (case rnd (real_of_int i) of Fin r \<Rightarrow> Inr (Fin r)
                                              | PosInf \<Rightarrow> Inl OverflowError
                                              | NegInf \<Rightarrow> Inl OverflowError
                                              | NaN \<Rightarrow> Inl OverflowError)
      | PyStr s \<Rightarrow> (case parse s of Some f \<Rightarrow> Inr f | None \<Rightarrow> Inl ValueError)
      | PyNone \<Rightarrow> Inl TypeError)"

text \<open>\<open>x <= c\<close> for a whole constant \<open>c\<close>: a float compares as a double (\<open>nan\<close> is not
  below anything), a whole number compares exactly, and Python 3 raises \<open>TypeError\<close> when
  \<open>x\<close> is a text or \<open>None\<close>.\<close>

definition py_le :: "pyval \<Rightarrow> real \<Rightarrow> pyerr + bool" where
  "py_le x c =
     (case x of
        PyFloat f \<Rightarrow> Inr (float_le f (Fin c))
      | PyInt i \<Rightarrow> Inr (real_of_int i \<le> c)
      | PyStr s \<Rightarrow> Inl TypeError
      | PyNone \<Rightarrow> Inl TypeError)"

text \<open>The body of \<open>calculate_grant\<close>, returning its three local variables as they stand at
  the \<open>return\<close>: \<open>(singles_grant, enhanced_grant, total_grants)\<close>.\<close>

definition calculate_grant_locals :: "pyval \<Rightarrow> pyval \<Rightarrow> pyerr + (int \<times> int \<times> int)" where
  "calculate_grant_locals salary flat_type =
     (case py_le salary 7000 of
        Inl e \<Rightarrow> Inl e
      | Inr within_7000 \<Rightarrow>
          if within_7000 then
            (let singles_grant =
                   (if flat_type \<in> set [PyStr ''2-Room'', PyStr ''3-Room'', PyStr ''4-Room'']
                      then singles_grant_2_to_4_room
                    else if flat_type = PyStr ''5-Room'' then singles_grant_5_room
                    else 0)
             in case py_le salary enhanced_grant_ceiling of
                  Inl e \<Rightarrow> Inl e
                | Inr within_4500 \<Rightarrow>
                    (let enhanced_grant = (if within_4500 then enhanced_grant_amount else 0);
                         total_grants = singles_grant + enhanced_grant
                     in Inr (singles_grant, enhanced_grant, total_grants)))
          else Inr (0, 0, 0 + 0))"

text \<open>\<open>calculate_grant\<close> itself: what it returns is \<open>total_grants\<close>, one whole number.\<close>

definition calculate_grant :: "pyval \<Rightarrow> pyval \<Rightarrow> pyerr + int" where
  "calculate_grant salary flat_type =
     (case calculate_grant_locals salary flat_type of
        Inl e \<Rightarrow> Inl e
      | Inr (singles_grant, enhanced_grant, total_grants) \<Rightarrow> Inr total_grants)"

text \<open>The \<open>try\<close> block of \<open>get_marker_color\<close>: three conversions in the source's order, the
  first exception ending the block.\<close>

definition convert_prices ::
  "(real \<Rightarrow> pyfloat) \<Rightarrow> (string \<Rightarrow> pyfloat option) \<Rightarrow> pyval \<Rightarrow> pyval \<Rightarrow> pyval \<Rightarrow>
     pyerr + (pyfloat \<times> pyfloat \<times> pyfloat)" where
  "convert_prices rnd parse preferred_price listing_price cpf_oa_balance =
     (case py_float rnd parse preferred_price of
        Inl e \<Rightarrow> Inl e
      | Inr p \<Rightarrow>
          (case py_float rnd parse listing_price of
             Inl e \<Rightarrow> Inl e
           | Inr l \<Rightarrow>
               (case py_float rnd parse cpf_oa_balance of
                  Inl e \<Rightarrow> Inl e
                | Inr c \<Rightarrow> Inr (p, l, c))))"

text \<open>
  Only \<open>ValueError\<close> is caught. The grant is a whole number of at most 100000, a double
  as it stands, so that \<open>listing_price - total_grants\<close> is a subtraction of two doubles.
\<close>

definition get_marker_color ::
  "(real \<Rightarrow> pyfloat) \<Rightarrow> (string \<Rightarrow> pyfloat option) \<Rightarrow>
     pyval \<Rightarrow> pyval \<Rightarrow> pyval \<Rightarrow> pyval \<Rightarrow> pyval \<Rightarrow> pyerr + string" where
  "get_marker_color rnd parse preferred_price listing_price salary flat_type cpf_oa_balance =
     (case convert_prices rnd parse preferred_price listing_price cpf_oa_balance of
        Inl ValueError \<Rightarrow> Inr ''gray''
      | Inl TypeError \<Rightarrow> Inl TypeError
      | Inl OverflowError \<Rightarrow> Inl OverflowError
      | Inr (preferred, listing, cpf) \<Rightarrow>
          (case calculate_grant salary flat_type of
             Inl e \<Rightarrow> Inl e
           | Inr total_grants \<Rightarrow>
               (let adjusted_price =
                      float_sub rnd (float_sub rnd listing (Fin (real_of_int total_grants))) cpf
                in
                if float_le adjusted_price preferred then Inr ''green''
                else if float_lt preferred adjusted_price \<and>
                        float_le adjusted_price (float_mul rnd preferred (Fin tolerance_factor))
                  then Inr ''yellow''
                else Inr ''red'')))"

subsection \<open>The specification's wording, for comparison\<close>

text \<open>The classifier as the specification words it: the grants and the CPF balance are
  taken off the preferred price, and the listing price is compared with that ceiling and
  with 1.05 times the ceiling.\<close>

definition spec_classifyListing :: "real \<Rightarrow> real \<Rightarrow> real \<Rightarrow> real \<Rightarrow> string" where
  "spec_classifyListing preferredPrice listingPrice totalGrant cpfBalance =
     (let adjustedCeiling = preferredPrice - totalGrant - cpfBalance in
      if listingPrice \<le> adjustedCeiling then ''green''
      else if adjustedCeiling < listingPrice \<and> listingPrice \<le> adjustedCeiling * 1.05 then ''yellow''
      else ''red'')"


section \<open>view/auth/SignUpScreen.js: the interest rate of a loan\<close>

datatype jsnum = JsNum real | JsNaN | JsPosInf | JsNegInf

text \<open>The relational operators of JavaScript against a finite constant.\<close>

definition js_le :: "jsnum \<Rightarrow> real \<Rightarrow> bool" where
  "js_le x c = (case x of JsNum r \<Rightarrow> r \<le> c | JsNaN \<Rightarrow> False | JsPosInf \<Rightarrow> False | JsNegInf \<Rightarrow> True)"

definition js_lt :: "jsnum \<Rightarrow> real \<Rightarrow> bool" where
  "js_lt x c = (case x of JsNum r \<Rightarrow> r < c | JsNaN \<Rightarrow> False | JsPosInf \<Rightarrow> False | JsNegInf \<Rightarrow> True)"

definition js_gt :: "jsnum \<Rightarrow> real \<Rightarrow> bool" where
  "js_gt x c = (case x of JsNum r \<Rightarrow> r > c | JsNaN \<Rightarrow> False | JsPosInf \<Rightarrow> True | JsNegInf \<Rightarrow> False)"

definition getInterestRate :: "string \<Rightarrow> jsnum \<Rightarrow> string" where
  "getInterestRate loanType loanTenure =
     (if loanType = ''HDB Housing Loan'' then ''2.6% per annum''
      else if loanType = ''DBS 5 Year Fixed Package'' then
        (if js_le loanTenure 5 then ''2.5% per annum for the first 5 years''
         else ''2.5% per annum for the first 5 years, then 4.48% per annum'')
      else ''Unknown Loan Type'')"


section \<open>The preferences screen (EditPreferencesScreen)\<close>

text \<open>The component's state, as its \<open>useState\<close> hooks hold it: five text fields, the error
  message, the user's address and the edit mode.\<close>

record prefs_state =
  salary :: string
  cpfBalance :: string
  hdbType :: string
  preferredPrice :: string
  housingLoanType :: string
  errorMessage :: string
  userEmail :: string
  editMode :: bool

definition BACKEND_URL :: string where
  "BACKEND_URL = ''http://127.0.0.1:8000''"

text \<open>\<open>parseFloat\<close> on the decimal fragment; \<open>NaN\<close> where the fragment has no number.\<close>

definition parseFloat_decimal :: "string \<Rightarrow> jsnum" where
  "parseFloat_decimal s = (case decimal_literal s of Some r \<Rightarrow> JsNum r | None \<Rightarrow> JsNaN)"

text \<open>\<open>/^\d+(\.\d{1,2})?$/.test(value)\<close>: digits, then nothing or a point and one or two
  digits.\<close>

definition isValidDecimal :: "string \<Rightarrow> bool" where
  "isValidDecimal v =
     (let ip = takeWhile is_digit v; rest = dropWhile is_digit v in
      ip \<noteq> [] \<and>
      (rest = [] \<or>
       (hd rest = CHR ''.'' \<and> (length (tl rest) = 1 \<or> length (tl rest) = 2) \<and>
        list_all is_digit (tl rest))))"

text \<open>The body of the POST: the keys \<open>salary\<close>, \<open>cpf_balance\<close>, \<open>hdb_type\<close>,
  \<open>preferred_price\<close>, \<open>housing_loan_type\<close>, in this order.\<close>

datatype updated_data = UpdatedData jsnum jsnum string jsnum string

datatype effect =
    Post string updated_data
  | Alert string string
  | ConsoleError string

text \<open>What \<open>await fetch\<close> gives: a response that is ok, a response that is not, or a
  rejected promise.\<close>

datatype fetch_result = ResponseOk | ResponseNotOk | FetchRejected

definition handleSavePreferences ::
  "(string \<Rightarrow> jsnum) \<Rightarrow> fetch_result \<Rightarrow> prefs_state \<Rightarrow> prefs_state \<times> effect list" where
  "handleSavePreferences parseFloat response st0 =
     (let st = st0\<lparr>errorMessage := ''''\<rparr> in
      if salary st = '''' \<or> cpfBalance st = '''' \<or> hdbType st = '''' \<or>
         preferredPrice st = '''' \<or> housingLoanType st = ''''
        then (st\<lparr>errorMessage := ''Please fill out all fields.''\<rparr>, [])
      else if housingLoanType st = ''HDB Housing Loan'' \<and> js_gt (parseFloat (salary st)) 7000
        then (st\<lparr>errorMessage :=
                  ''HDB Loan is only allowed if salary is less than or equal to 7000.''\<rparr>, [])
      else if \<not> isValidDecimal (preferredPrice st) \<or> js_lt (parseFloat (preferredPrice st)) 200000
        then (st\<lparr>errorMessage := ''Preferred price must be $200,000 or more.''\<rparr>, [])
      else if \<not> isValidDecimal (salary st) \<or> js_le (parseFloat (salary st)) 0
        then (st\<lparr>errorMessage :=
                  ''Salary must be a positive number with up to 2 decimal places.''\<rparr>, [])
      else if \<not> isValidDecimal (cpfBalance st) \<or> js_le (parseFloat (cpfBalance st)) 0
        then (st\<lparr>errorMessage :=
                  ''CPF Balance must be a positive number with up to 2 decimal places.''\<rparr>, [])
      else if \<not> isValidDecimal (preferredPrice st) \<or> js_le (parseFloat (preferredPrice st)) 0
        then (st\<lparr>errorMessage :=
                  ''Preferred Price must be a positive number with up to 2 decimal places.''\<rparr>, [])
      else
        (let updatedData = UpdatedData (parseFloat (salary st)) (parseFloat (cpfBalance st))
                             (hdbType st) (parseFloat (preferredPrice st)) (housingLoanType st);
             post = Post (BACKEND_URL @ ''/user/preferences/'' @ userEmail st) updatedData
         in case response of
              ResponseOk \<Rightarrow>
                (st\<lparr>editMode := False\<rparr>,
                 [post, Alert ''Success'' ''Preferences updated successfully!''])
            | ResponseNotOk \<Rightarrow>
                (st, [post, ConsoleError ''Error updating user data:'',
                      Alert ''Error'' ''Failed to update preferences.''])
            | FetchRejected \<Rightarrow>
                (st, [post, ConsoleError ''Error updating user data:'',
                      Alert ''Error'' ''Failed to update preferences.''])))"

text \<open>\<open>amount.toString()\<close> for a non-negative whole amount: its decimal digits.\<close>

fun toString :: "nat \<Rightarrow> string" where
  "toString n =
     (if n < 10 then [''0123456789'' ! n]
      else toString (n div 10) @ [''0123456789'' ! (n mod 10)])"

declare toString.simps [simp del]

text \<open>\<open>formatAmount\<close> on the whole amounts the screen passes. The replacement
  \<open>/\B(?=(\d{3})+(?!\d))/g\<close> puts a comma at every inner position that is followed by a
  multiple of three digits up to the end.\<close>

definition formatAmount :: "nat \<Rightarrow> string" where
  "formatAmount amount =
     (let ds = toString amount; n = length ds in
      concat (map (\<lambda>(i, c). if 0 < i \<and> (n - i) mod 3 = 0 then [CHR '','', c] else [c])
                  (enumerate 0 ds)))"

definition checkGrantEligibility :: "(string \<Rightarrow> jsnum) \<Rightarrow> prefs_state \<Rightarrow> string" where
  "checkGrantEligibility parseFloat st =
     (if js_le (parseFloat (salary st)) 7000 then
        (let singlesGrant =
               (if hdbType st = ''5-Room'' \<or> hdbType st = ''Executive'' then 25000 else 40000 :: nat)
         in if js_le (parseFloat (salary st)) 4500 then
              (let enhancedGrant = 60000; totalGrant = singlesGrant + enhancedGrant in
               ''Eligible for: HDB Singles Grant and Enhanced CPF Housing Grant. '' @ [CHR 0x0A] @
               ''Total Amount: $'' @ formatAmount totalGrant)
            else
              ''Eligible for: HDB Singles Grant. '' @ [CHR 0x0A] @
              ''Amount: $'' @ formatAmount singlesGrant)
      else ''Not eligible for any grants.'')"


text \<open>The state the screen starts from: the defaults of its \<open>useState\<close> hooks.\<close>

definition initial_state :: prefs_state where
  "initial_state =
     \<lparr>salary = ''0'', cpfBalance = ''0'', hdbType = '''', preferredPrice = ''0'',
      housingLoanType = '''', errorMessage = '''', userEmail = '''', editMode = False\<rparr>"


section \<open>The specification's grant result, for comparison\<close>

text \<open>The grant calculator as the specification words it: a result of three amounts, the
  singles grant not depending on the salary.\<close>

record GrantResult =
  singlesGrantAmount :: int
  enhancedGrantAmount :: int
  totalGrant :: int

definition spec_calculateGrant :: "real \<Rightarrow> string \<Rightarrow> GrantResult" where
  "spec_calculateGrant sal flatType =
     (let singles = (if flatType \<in> set [''2-Room'', ''3-Room'', ''4-Room''] then 40000
                     else if flatType = ''5-Room'' then 25000 else 0);
          enhanced = (if sal \<le> 4500 then 60000 else 0)
      in \<lparr>singlesGrantAmount = singles, enhancedGrantAmount = enhanced,
          totalGrant = singles + enhanced\<rparr>)"


section \<open>Evaluation lemmas\<close>

lemma formatAmount_values:
  "formatAmount 25000 = ''25,000''"
  "formatAmount 40000 = ''40,000''"
  "formatAmount 85000 = ''85,000''"
  "formatAmount 100000 = ''100,000''"
  by (simp_all add: formatAmount_def toString.simps)

lemma decimal_literal_values:
  "decimal_literal ''460000'' = Some 460000"
  "decimal_literal ''-5'' = Some (- 5)"
  "decimal_literal ''abc'' = None"
  "decimal_literal [] = None"
  by (simp_all add: decimal_literal_def unsigned_decimal_def is_digit_def digits_val_def
        digit_val_def)

lemma parseFloat_decimal_values:
  "parseFloat_decimal ''8000'' = JsNum 8000"
  "parseFloat_decimal ''7000'' = JsNum 7000"
  "parseFloat_decimal ''6000'' = JsNum 6000"
  "parseFloat_decimal ''4000'' = JsNum 4000"
  "parseFloat_decimal ''abc'' = JsNaN"
  by (simp_all add: parseFloat_decimal_def decimal_literal_def unsigned_decimal_def is_digit_def
        digits_val_def digit_val_def)

lemma isValidDecimal_values:
  "isValidDecimal ''6000''"
  "isValidDecimal ''20000.50''"
  "\<not> isValidDecimal ''12.345''"
  "\<not> isValidDecimal ''-5''"
  "\<not> isValidDecimal ''abc''"
  by (simp_all add: isValidDecimal_def is_digit_def)

text \<open>The save goes through on a valid form: one POST with the parsed numbers, the
  success alert, and the edit mode left.\<close>

lemma handleSavePreferences_saves:
  "handleSavePreferences parseFloat_decimal ResponseOk
       (initial_state\<lparr>salary := ''6000'', cpfBalance := ''20000'', hdbType := ''3-Room'',
          preferredPrice := ''300000'', housingLoanType := ''HDB Housing Loan'',
          userEmail := ''a@b.sg'', editMode := True\<rparr>) =
     (initial_state\<lparr>salary := ''6000'', cpfBalance := ''20000'', hdbType := ''3-Room'',
          preferredPrice := ''300000'', housingLoanType := ''HDB Housing Loan'',
          userEmail := ''a@b.sg'', editMode := False\<rparr>,
      [Post ''http://127.0.0.1:8000/user/preferences/a@b.sg''
         (UpdatedData (JsNum 6000) (JsNum 20000) ''3-Room'' (JsNum 300000) ''HDB Housing Loan''),
       Alert ''Success'' ''Preferences updated successfully!''])"
  by (simp add: handleSavePreferences_def Let_def initial_state_def BACKEND_URL_def
        isValidDecimal_def parseFloat_decimal_def decimal_literal_def unsigned_decimal_def
        is_digit_def digits_val_def digit_val_def js_gt_def js_lt_def js_le_def)

text \<open>A salary that is text is not converted by the classifier: the comparison in
  \<open>calculate_grant\<close> raises.\<close>

lemma get_marker_color_text_salary:
  "get_marker_color round_exact float_decimal (PyNum 500000) (PyNum 460000) (PyStr ''abc'')
     (PyStr ''4-Room'') (PyNum 20000) = Inl TypeError"
  by (simp add: get_marker_color_def convert_prices_def py_float_def calculate_grant_def
        calculate_grant_locals_def py_le_def)

text \<open>A whole number beyond the range of a double is not converted: \<open>float\<close> raises, and
  the exception is not caught.\<close>

lemma get_marker_color_overflow:
  assumes "rnd (real_of_int i) = PosInf"
  shows "get_marker_color rnd parse (PyInt i) lp sal ft cb = Inl OverflowError"
  using assms
  by (simp add: get_marker_color_def convert_prices_def py_float_def)


section \<open>The grant calculator\<close>

lemma py_le_PyNum: "py_le (PyNum r) c = Inr (r \<le> c)"
  by (simp add: py_le_def)

lemma calculate_grant_locals_PyNum:
  "calculate_grant_locals (PyNum s) ft =
     (if s \<le> 7000 then
        Inr (if ft = PyStr ''2-Room'' \<or> ft = PyStr ''3-Room'' \<or> ft = PyStr ''4-Room'' then 40000
             else if ft = PyStr ''5-Room'' then 25000 else 0,
             if s \<le> 4500 then 60000 else 0,
             (if ft = PyStr ''2-Room'' \<or> ft = PyStr ''3-Room'' \<or> ft = PyStr ''4-Room'' then 40000
              else if ft = PyStr ''5-Room'' then 25000 else 0) +
             (if s \<le> 4500 then 60000 else 0))
      else Inr (0, 0, 0))"
  by (simp add: calculate_grant_locals_def py_le_PyNum singles_grant_2_to_4_room_def
        singles_grant_5_room_def enhanced_grant_ceiling_def enhanced_grant_amount_def Let_def)

text \<open>A whole salary is treated as the float of the same value.\<close>

lemma calculate_grant_PyInt:
  "calculate_grant_locals (PyInt i) ft = calculate_grant_locals (PyNum (real_of_int i)) ft"
  "calculate_grant (PyInt i) ft = calculate_grant (PyNum (real_of_int i)) ft"
  by (simp_all add: calculate_grant_def calculate_grant_locals_def py_le_def)

text \<open>Whatever the salary and the flat type, the total is one of six whole amounts.\<close>

lemma calculate_grant_values:
  assumes "calculate_grant sal ft = Inr g"
  shows "g \<in> {0, 25000, 40000, 60000, 85000, 100000}"
  using assms
  by (auto simp: calculate_grant_def calculate_grant_locals_def Let_def
        singles_grant_2_to_4_room_def singles_grant_5_room_def enhanced_grant_amount_def
        split: sum.splits if_splits)

text \<open>
  C4, as the code has it. \<open>calculate_grant\<close> returns one whole number, the total, and no
  result of three amounts. For every numeric salary and every flat type it raises nothing;
  its local \<open>enhanced_grant\<close> is 60000 when the salary is at most 4500 and 0 when it is
  above 4500, whatever the flat type; the total returned is the sum of its locals
  \<open>singles_grant\<close> and \<open>enhanced_grant\<close>, and neither is negative, so that the total is
  60000, 85000 or 100000 up to a salary of 4500 and 0, 25000 or 40000 above. For a salary
  of 4000 and a 5-room flat the locals are 25000 and 60000 and the value returned is 85000.
\<close>

theorem calculate_grant_enhanced_and_total:
  "(\<exists>sg eg. calculate_grant_locals (PyNum s) flat_type = Inr (sg, eg, sg + eg) \<and>
            calculate_grant (PyNum s) flat_type = Inr (sg + eg) \<and>
            (s \<le> 4500 \<longrightarrow> eg = 60000) \<and> (4500 < s \<longrightarrow> eg = 0) \<and> 0 \<le> sg \<and> 0 \<le> eg) \<and>
   (s \<le> 4500 \<longrightarrow>
      calculate_grant (PyNum s) flat_type \<in> {Inr 60000, Inr 85000, Inr 100000}) \<and>
   (4500 < s \<longrightarrow>
      calculate_grant (PyNum s) flat_type \<in> {Inr 0, Inr 25000, Inr 40000}) \<and>
   calculate_grant_locals (PyNum 4000) (PyStr ''5-Room'') = Inr (25000, 60000, 85000) \<and>
   calculate_grant (PyNum 4000) (PyStr ''5-Room'') = Inr 85000"
  by (simp add: calculate_grant_def calculate_grant_locals_PyNum)

theorem calculate_grant_enhanced_and_total_witness:
  "(4000::real) \<le> 4500 \<and> (4500::real) < 6000 \<and>
   calculate_grant (PyNum 4000) (PyStr ''5-Room'') = Inr 85000 \<and>
   calculate_grant (PyNum 6000) (PyStr ''4-Room'') \<in> {Inr 0, Inr 25000, Inr 40000} \<and>
   (\<exists>sg. calculate_grant_locals (PyNum 6000) (PyStr ''4-Room'') = Inr (sg, 0, sg + 0))"
  using calculate_grant_enhanced_and_total [of 4000 "PyStr ''5-Room''"]
    calculate_grant_enhanced_and_total [of 6000 "PyStr ''4-Room''"]
  by auto

text \<open>
  C4 as stated fails: for a salary of 4000 and a 5-room flat the specification's result
  has the three amounts 25000, 60000 and 85000, while the code returns the single number
  85000, which is not the enhanced grant of 60000.
\<close>

theorem calculate_grant_enhanced_and_total_counterexample:
  "spec_calculateGrant 4000 ''5-Room'' =
     \<lparr>singlesGrantAmount = 25000, enhancedGrantAmount = 60000, totalGrant = 85000\<rparr> \<and>
   calculate_grant (PyNum 4000) (PyStr ''5-Room'') = Inr 85000 \<and>
   calculate_grant (PyNum 4000) (PyStr ''5-Room'') \<noteq>
     Inr (enhancedGrantAmount (spec_calculateGrant 4000 ''5-Room''))"
  by (simp add: spec_calculateGrant_def calculate_grant_def calculate_grant_locals_PyNum)

text \<open>
  C3, as the code has it. The singles grant depends on the salary: for a numeric salary of
  at most 7000 it is 40000 for a 2-, 3- or 4-room flat, 25000 for a 5-room flat and 0 for
  every other flat type; for a salary above 7000 it is 0 for every flat type, and so is
  the total. No flat type makes \<open>calculate_grant\<close> raise.
\<close>

theorem calculate_grant_singles:
  "(s \<le> 7000 \<and> flat_type \<in> {PyStr ''2-Room'', PyStr ''3-Room'', PyStr ''4-Room''} \<longrightarrow>
      (\<exists>eg tg. calculate_grant_locals (PyNum s) flat_type = Inr (40000, eg, tg))) \<and>
   (s \<le> 7000 \<and> flat_type = PyStr ''5-Room'' \<longrightarrow>
      (\<exists>eg tg. calculate_grant_locals (PyNum s) flat_type = Inr (25000, eg, tg))) \<and>
   (s \<le> 7000 \<and>
    flat_type \<notin> {PyStr ''2-Room'', PyStr ''3-Room'', PyStr ''4-Room'', PyStr ''5-Room''} \<longrightarrow>
      (\<exists>eg tg. calculate_grant_locals (PyNum s) flat_type = Inr (0, eg, tg))) \<and>
   (7000 < s \<longrightarrow> calculate_grant_locals (PyNum s) flat_type = Inr (0, 0, 0) \<and>
                 calculate_grant (PyNum s) flat_type = Inr 0) \<and>
   (\<exists>g. calculate_grant (PyNum s) flat_type = Inr g)"
proof (cases "s \<le> 7000")
  case True
  then show ?thesis
    by (simp add: calculate_grant_def calculate_grant_locals_PyNum)
next
  case False
  then have "calculate_grant_locals (PyNum s) flat_type = Inr (0, 0, 0)"
    by (simp add: calculate_grant_locals_PyNum)
  with False show ?thesis
    by (simp add: calculate_grant_def)
qed

theorem calculate_grant_singles_witness:
  "(6000::real) \<le> 7000 \<and> (7000::real) < 8000 \<and>
   (\<exists>eg tg. calculate_grant_locals (PyNum 6000) (PyStr ''4-Room'') = Inr (40000, eg, tg)) \<and>
   (\<exists>eg tg. calculate_grant_locals (PyNum 6000) (PyStr ''5-Room'') = Inr (25000, eg, tg)) \<and>
   (\<exists>eg tg. calculate_grant_locals (PyNum 6000) (PyStr ''Executive'') = Inr (0, eg, tg)) \<and>
   calculate_grant (PyNum 8000) (PyStr ''4-Room'') = Inr 0"
  using calculate_grant_singles [of 6000 "PyStr ''4-Room''"]
    calculate_grant_singles [of 6000 "PyStr ''5-Room''"]
    calculate_grant_singles [of 6000 "PyStr ''Executive''"]
    calculate_grant_singles [of 8000 "PyStr ''4-Room''"]
  by simp

text \<open>
  C3 as stated fails: at a salary of 8000 a 3-room flat has a singles grant of 0, not
  40000, and the total returned is 0.
\<close>

theorem calculate_grant_singles_counterexample:
  "calculate_grant_locals (PyNum 8000) (PyStr ''3-Room'') = Inr (0, 0, 0) \<and>
   calculate_grant_locals (PyNum 8000) (PyStr ''3-Room'') \<noteq> Inr (40000, 0, 40000) \<and>
   calculate_grant (PyNum 8000) (PyStr ''3-Room'') = Inr 0"
  by (simp add: calculate_grant_def calculate_grant_locals_PyNum)


section \<open>Comparing doubles\<close>

lemma float_lt_not_le: "float_lt x y \<Longrightarrow> \<not> float_le y x"
  by (cases x; cases y) simp_all

lemma float_lt_not_NaN: "float_lt x y \<Longrightarrow> x \<noteq> NaN \<and> y \<noteq> NaN"
  by (cases x; cases y) simp_all

lemma float_le_refl: "x \<noteq> NaN \<Longrightarrow> float_le x x"
  by (cases x) simp_all

lemma float_not_le_iff: "x \<noteq> NaN \<Longrightarrow> y \<noteq> NaN \<Longrightarrow> (\<not> float_le x y) = float_lt y x"
  by (cases x; cases y) auto

lemma float_le_trans: "float_le x y \<Longrightarrow> float_le y z \<Longrightarrow> float_le x z"
  by (cases x; cases y; cases z) simp_all

lemma float_le_NaN_right: "\<not> float_le x NaN"
  by (cases x) simp_all

lemma float_lt_NaN_right: "\<not> float_lt x NaN"
  by (cases x) simp_all


section \<open>The marker colour\<close>

lemma get_marker_color_converted:
  assumes "py_float rnd parse pp = Inr p" and "py_float rnd parse lp = Inr l"
    and "py_float rnd parse cb = Inr c" and "calculate_grant sal ft = Inr g"
  shows "get_marker_color rnd parse pp lp sal ft cb =
           Inr (if float_le (float_sub rnd (float_sub rnd l (Fin (real_of_int g))) c) p
                  then ''green''
                else if float_lt p (float_sub rnd (float_sub rnd l (Fin (real_of_int g))) c) \<and>
                        float_le (float_sub rnd (float_sub rnd l (Fin (real_of_int g))) c)
                          (float_mul rnd p (Fin tolerance_factor))
                  then ''yellow''
                else ''red'')"
  using assms
  by (simp add: get_marker_color_def convert_prices_def Let_def)

lemma calculate_grant_PyNum_total:
  "\<exists>g. calculate_grant (PyNum s) ft = Inr g \<and> 0 \<le> g"
  by (simp add: calculate_grant_def calculate_grant_locals_PyNum)

lemma get_marker_color_after_conversion:
  assumes "convert_prices rnd parse pp lp cb = Inr (p, l, c)"
  shows "get_marker_color rnd parse pp lp (PyNum s) ft cb
           \<in> {Inr ''green'', Inr ''yellow'', Inr ''red''}"
proof -
  obtain g where "calculate_grant (PyNum s) ft = Inr g"
    using calculate_grant_PyNum_total by blast
  with assms show ?thesis
    by (simp add: get_marker_color_def Let_def)
qed

lemma convert_prices_Inr_iff:
  "convert_prices rnd parse pp lp cb = Inr (p, l, c) \<longleftrightarrow>
     py_float rnd parse pp = Inr p \<and> py_float rnd parse lp = Inr l \<and>
     py_float rnd parse cb = Inr c"
  by (auto simp: convert_prices_def split: sum.splits)

lemma convert_prices_ValueError_iff:
  "convert_prices rnd parse pp lp cb = Inl ValueError \<longleftrightarrow>
     py_float rnd parse pp = Inl ValueError \<or>
     (\<exists>p. py_float rnd parse pp = Inr p) \<and> py_float rnd parse lp = Inl ValueError \<or>
     (\<exists>p. py_float rnd parse pp = Inr p) \<and> (\<exists>l. py_float rnd parse lp = Inr l) \<and>
       py_float rnd parse cb = Inl ValueError"
  by (auto simp: convert_prices_def split: sum.splits)

lemma get_marker_color_gray_iff:
  "get_marker_color rnd parse pp lp (PyNum s) ft cb = Inr ''gray'' \<longleftrightarrow>
     convert_prices rnd parse pp lp cb = Inl ValueError"
proof (cases "convert_prices rnd parse pp lp cb")
  case (Inl e)
  then show ?thesis
    by (cases e) (simp_all add: get_marker_color_def)
next
  case (Inr t)
  obtain p l c where "t = (p, l, c)"
    by (cases t) auto
  with Inr have converted: "convert_prices rnd parse pp lp cb = Inr (p, l, c)"
    by simp
  from get_marker_color_after_conversion [OF converted, of s ft] converted
  show ?thesis
    by auto
qed

lemma py_float_cases:
  assumes "x \<noteq> PyNone" and "py_float rnd parse x \<noteq> Inl OverflowError"
  shows "py_float rnd parse x = Inl ValueError \<or> (\<exists>f. py_float rnd parse x = Inr f)"
proof (cases "py_float rnd parse x")
  case (Inl e)
  from assms(1) have "py_float rnd parse x \<noteq> Inl TypeError"
    by (cases x) (auto simp: py_float_def split: option.splits pyfloat.splits)
  with Inl assms(2) show ?thesis
    by (cases e) simp_all
next
  case (Inr f)
  then show ?thesis by blast
qed

text \<open>
  C1, as the code has it. When the three prices convert and the grant is computed, the
  classifier takes the grants and then the CPF balance off the listing price, in double
  arithmetic, each subtraction rounded:
  \<open>adjusted_price = (listing_price - total_grants) - cpf_oa_balance\<close>. It compares the
  result with the preferred price: green when \<open>adjusted_price \<le> preferred_price\<close>, yellow
  when \<open>preferred_price < adjusted_price \<le> preferred_price * 1.05\<close>, the product being
  the rounded double product, red otherwise, the first match winning. With a preferred
  price \<open>P > 0\<close>, an adjusted price of \<open>P\<close> is green; an adjusted price equal to the
  product \<open>P * 1.05\<close> is yellow when the product is above \<open>P\<close>; an adjusted price above
  both \<open>P\<close> and the product is red. Where the values are finite and the two subtractions
  are exact, green means \<open>listing_price - total_grants - cpf_oa_balance \<le>
  preferred_price\<close> in the reals.
\<close>

theorem get_marker_color_bands:
  assumes "py_float rnd parse preferred_price = Inr p"
    and "py_float rnd parse listing_price = Inr l"
    and "py_float rnd parse cpf_oa_balance = Inr c"
    and "calculate_grant sal flat_type = Inr g"
    and "a = float_sub rnd (float_sub rnd l (Fin (real_of_int g))) c"
    and "q = float_mul rnd p (Fin tolerance_factor)"
  shows "(float_le a p \<longrightarrow>
            get_marker_color rnd parse preferred_price listing_price sal flat_type cpf_oa_balance
              = Inr ''green'') \<and>
         (float_lt p a \<and> float_le a q \<longrightarrow>
            get_marker_color rnd parse preferred_price listing_price sal flat_type cpf_oa_balance
              = Inr ''yellow'') \<and>
         (\<not> float_le a p \<and> \<not> (float_lt p a \<and> float_le a q) \<longrightarrow>
            get_marker_color rnd parse preferred_price listing_price sal flat_type cpf_oa_balance
              = Inr ''red'') \<and>
         (float_lt (Fin 0) p \<and> a = p \<longrightarrow>
            get_marker_color rnd parse preferred_price listing_price sal flat_type cpf_oa_balance
              = Inr ''green'') \<and>
         (float_lt (Fin 0) p \<and> float_lt p q \<and> a = q \<longrightarrow>
            get_marker_color rnd parse preferred_price listing_price sal flat_type cpf_oa_balance
              = Inr ''yellow'') \<and>
         (float_lt (Fin 0) p \<and> float_lt p a \<and> float_lt q a \<longrightarrow>
            get_marker_color rnd parse preferred_price listing_price sal flat_type cpf_oa_balance
              = Inr ''red'') \<and>
         (\<forall>p' l' c'. p = Fin p' \<and> l = Fin l' \<and> c = Fin c' \<and>
             rnd (l' - real_of_int g) = Fin (l' - real_of_int g) \<and>
             rnd (l' - real_of_int g - c') = Fin (l' - real_of_int g - c') \<longrightarrow>
            (get_marker_color rnd parse preferred_price listing_price sal flat_type cpf_oa_balance
               = Inr ''green'' \<longleftrightarrow> l' - real_of_int g - c' \<le> p'))"
proof -
  have colour:
    "get_marker_color rnd parse preferred_price listing_price sal flat_type cpf_oa_balance =
       Inr (if float_le a p then ''green''
            else if float_lt p a \<and> float_le a q then ''yellow'' else ''red'')"
    unfolding assms(5) assms(6) by (rule get_marker_color_converted [OF assms(1-4)])
  have c1: "float_le a p \<longrightarrow>
      get_marker_color rnd parse preferred_price listing_price sal flat_type cpf_oa_balance
        = Inr ''green''"
    by (simp add: colour)
  have c2: "float_lt p a \<and> float_le a q \<longrightarrow>
      get_marker_color rnd parse preferred_price listing_price sal flat_type cpf_oa_balance
        = Inr ''yellow''"
    by (auto simp: colour dest: float_lt_not_le)
  have c3: "\<not> float_le a p \<and> \<not> (float_lt p a \<and> float_le a q) \<longrightarrow>
      get_marker_color rnd parse preferred_price listing_price sal flat_type cpf_oa_balance
        = Inr ''red''"
    by (auto simp: colour)
  have c4: "float_lt (Fin 0) p \<and> a = p \<longrightarrow>
      get_marker_color rnd parse preferred_price listing_price sal flat_type cpf_oa_balance
        = Inr ''green''"
    using c1 float_le_refl [of p] float_lt_not_NaN [of "Fin 0" p] by blast
  have c5: "float_lt (Fin 0) p \<and> float_lt p q \<and> a = q \<longrightarrow>
      get_marker_color rnd parse preferred_price listing_price sal flat_type cpf_oa_balance
        = Inr ''yellow''"
    using c2 float_le_refl [of q] float_lt_not_NaN [of p q] by blast
  have c6: "float_lt (Fin 0) p \<and> float_lt p a \<and> float_lt q a \<longrightarrow>
      get_marker_color rnd parse preferred_price listing_price sal flat_type cpf_oa_balance
        = Inr ''red''"
    using c3 float_lt_not_le [of p a] float_lt_not_le [of q a] by blast
  have c7: "\<forall>p' l' c'. p = Fin p' \<and> l = Fin l' \<and> c = Fin c' \<and>
             rnd (l' - real_of_int g) = Fin (l' - real_of_int g) \<and>
             rnd (l' - real_of_int g - c') = Fin (l' - real_of_int g - c') \<longrightarrow>
            (get_marker_color rnd parse preferred_price listing_price sal flat_type cpf_oa_balance
               = Inr ''green'' \<longleftrightarrow> l' - real_of_int g - c' \<le> p')"
    by (auto simp: colour assms(5))
  from c1 c2 c3 c4 c5 c6 c7 show ?thesis
    by blast
qed

lemma calculate_grant_4000_4_room:
  "calculate_grant (PyNum 4000) (PyStr ''4-Room'') = Inr 100000"
  by (simp add: calculate_grant_def calculate_grant_locals_PyNum)

lemma calculate_grant_8000:
  "calculate_grant (PyNum 8000) ft = Inr 0"
  by (simp add: calculate_grant_def calculate_grant_locals_PyNum)

lemma py_float_PyFloat: "py_float rnd parse (PyFloat f) = Inr f"
  by (simp add: py_float_def)

lemma py_float_460000: "py_float rnd float_decimal (PyStr ''460000'') = Inr (Fin 460000)"
  by (simp add: py_float_def float_decimal_def decimal_literal_values)

theorem get_marker_color_bands_witness:
  "get_marker_color round_exact float_decimal (PyNum 500000) (PyStr ''460000'') (PyNum 4000)
     (PyStr ''4-Room'') (PyNum 20000) = Inr ''green'' \<and>
   get_marker_color round_exact float_decimal (PyNum 340000) (PyStr ''460000'') (PyNum 4000)
     (PyStr ''4-Room'') (PyNum 20000) = Inr ''green'' \<and>
   get_marker_color round_exact float_decimal (PyNum 524288) (PyNum 670000) (PyNum 4000)
     (PyStr ''4-Room'') (PyNum 20000) = Inr ''yellow'' \<and>
   get_marker_color round_exact float_decimal (PyNum 524288)
     (PyNum (4728779608739021 / 8589934592)) (PyNum 8000) (PyStr ''4-Room'') (PyNum 0)
     = Inr ''yellow'' \<and>
   get_marker_color round_exact float_decimal (PyNum 524288) (PyNum 680000) (PyNum 4000)
     (PyStr ''4-Room'') (PyNum 20000) = Inr ''red''"
proof -
  have num: "\<And>f. py_float round_exact float_decimal (PyFloat f) = Inr f"
    by (rule py_float_PyFloat)
  have text_price: "py_float round_exact float_decimal (PyStr ''460000'') = Inr (Fin 460000)"
    by (rule py_float_460000)
  note inside = get_marker_color_bands [OF num [of "Fin 500000"] text_price
      num [of "Fin 20000"] calculate_grant_4000_4_room refl refl]
  note on_price = get_marker_color_bands [OF num [of "Fin 340000"] text_price
      num [of "Fin 20000"] calculate_grant_4000_4_room refl refl]
  note band = get_marker_color_bands [OF num [of "Fin 524288"] num [of "Fin 670000"]
      num [of "Fin 20000"] calculate_grant_4000_4_room refl refl]
  note on_product = get_marker_color_bands [OF num [of "Fin 524288"]
      num [of "Fin (4728779608739021 / 8589934592)"] num [of "Fin 0"]
      calculate_grant_8000 [of "PyStr ''4-Room''"] refl refl]
  note beyond = get_marker_color_bands [OF num [of "Fin 524288"] num [of "Fin 680000"]
      num [of "Fin 20000"] calculate_grant_4000_4_room refl refl]
  show ?thesis
    using inside on_price band on_product beyond
    by (simp add: round_exact_def tolerance_factor_def)
qed

text \<open>
  C1 as stated fails on the specification's own third scenario: preferred price 500000,
  listing price 460000, salary 4000, a 4-room flat and a CPF balance of 20000. The grant
  is 100000; the stated rule has a ceiling of 380000 and answers red, the code has an
  adjusted price of 340000 and answers green. All the numbers are whole, so that no
  subtraction rounds.
\<close>

theorem get_marker_color_bands_counterexample:
  "get_marker_color round_exact float_decimal (PyNum 500000) (PyNum 460000) (PyNum 4000)
     (PyStr ''4-Room'') (PyNum 20000) = Inr ''green'' \<and>
   calculate_grant (PyNum 4000) (PyStr ''4-Room'') = Inr 100000 \<and>
   spec_classifyListing 500000 460000 100000 20000 = ''red''"
  by (simp add: get_marker_color_converted [OF _ _ _ calculate_grant_4000_4_room]
        py_float_PyFloat calculate_grant_4000_4_room spec_classifyListing_def round_exact_def)

text \<open>
  The rounding decides at the edge of a band. With a preferred price of 240599.25, the
  listing price the double nearest to 342578.96, no grant and the CPF balance the double
  nearest to 101979.71, the exact difference is above the preferred price and the rounded
  difference is the preferred price: the colour is green for every rounding that gives
  the result of IEEE 754 at these two subtractions.
\<close>

lemma get_marker_color_rounded_difference:
  assumes "rnd (5885461717990769 / 17179869184) = Fin (5885461717990769 / 17179869184)"
    and "rnd (5885461717990769 / 17179869184 - 7007992308889027 / 68719476736)
           = Fin 240599.25"
  shows "(240599.25::real) < 5885461717990769 / 17179869184 - 7007992308889027 / 68719476736 \<and>
         get_marker_color rnd parse (PyNum 240599.25)
           (PyNum (5885461717990769 / 17179869184)) (PyNum 8000) ft
           (PyNum (7007992308889027 / 68719476736)) = Inr ''green''"
proof -
  have adjusted:
    "float_sub rnd
       (float_sub rnd (Fin (5885461717990769 / 17179869184)) (Fin (real_of_int 0)))
       (Fin (7007992308889027 / 68719476736)) = Fin 240599.25"
    using assms by simp
  have "get_marker_color rnd parse (PyNum 240599.25)
           (PyNum (5885461717990769 / 17179869184)) (PyNum 8000) ft
           (PyNum (7007992308889027 / 68719476736)) = Inr ''green''"
    unfolding get_marker_color_converted [OF py_float_PyFloat py_float_PyFloat py_float_PyFloat
        calculate_grant_8000] adjusted
    by simp
  then show ?thesis
    by simp
qed

text \<open>A \<open>nan\<close> among the prices is below nothing and above nothing: the colour is red.\<close>

lemma get_marker_color_nan:
  assumes "parse ''nan'' = Some NaN"
  shows "get_marker_color rnd parse (PyStr ''nan'') (PyStr ''nan'') (PyNum 8000) ft (PyNum 0)
           = Inr ''red''"
proof -
  have conv: "py_float rnd parse (PyStr ''nan'') = Inr NaN"
    using assms by (simp add: py_float_def)
  show ?thesis
    unfolding get_marker_color_converted [OF conv conv py_float_PyFloat calculate_grant_8000]
    by simp
qed

text \<open>
  C2, as the code has it. For a numeric salary and prices that are floats, whole numbers
  within the range of a double, or text, \<open>get_marker_color\<close> returns gray exactly when
  \<open>float\<close> rejects the preferred price, the listing price or the CPF balance with
  \<open>ValueError\<close>; the sign of a number is not looked at. Whenever the three convert, the
  result is green, yellow or red. For any prices at all, gray is returned exactly when
  the first of the three conversions that fails, in the source's order, fails with
  \<open>ValueError\<close>.
\<close>

theorem get_marker_color_gray:
  "(preferred_price \<noteq> PyNone \<and> listing_price \<noteq> PyNone \<and> cpf_oa_balance \<noteq> PyNone \<and>
    py_float rnd parse preferred_price \<noteq> Inl OverflowError \<and>
    py_float rnd parse listing_price \<noteq> Inl OverflowError \<and>
    py_float rnd parse cpf_oa_balance \<noteq> Inl OverflowError \<longrightarrow>
      (get_marker_color rnd parse preferred_price listing_price (PyNum s) flat_type
         cpf_oa_balance = Inr ''gray'' \<longleftrightarrow>
       py_float rnd parse preferred_price = Inl ValueError \<or>
       py_float rnd parse listing_price = Inl ValueError \<or>
       py_float rnd parse cpf_oa_balance = Inl ValueError)) \<and>
   ((\<exists>p. py_float rnd parse preferred_price = Inr p) \<and>
    (\<exists>l. py_float rnd parse listing_price = Inr l) \<and>
    (\<exists>c. py_float rnd parse cpf_oa_balance = Inr c) \<longrightarrow>
      get_marker_color rnd parse preferred_price listing_price (PyNum s) flat_type
        cpf_oa_balance \<in> {Inr ''green'', Inr ''yellow'', Inr ''red''}) \<and>
   (get_marker_color rnd parse preferred_price listing_price (PyNum s) flat_type
      cpf_oa_balance = Inr ''gray'' \<longleftrightarrow>
    py_float rnd parse preferred_price = Inl ValueError \<or>
    (\<exists>p. py_float rnd parse preferred_price = Inr p) \<and>
      py_float rnd parse listing_price = Inl ValueError \<or>
    (\<exists>p. py_float rnd parse preferred_price = Inr p) \<and>
      (\<exists>l. py_float rnd parse listing_price = Inr l) \<and>
      py_float rnd parse cpf_oa_balance = Inl ValueError)"
proof -
  have first_failure:
    "get_marker_color rnd parse preferred_price listing_price (PyNum s) flat_type
       cpf_oa_balance = Inr ''gray'' \<longleftrightarrow>
     py_float rnd parse preferred_price = Inl ValueError \<or>
     (\<exists>p. py_float rnd parse preferred_price = Inr p) \<and>
       py_float rnd parse listing_price = Inl ValueError \<or>
     (\<exists>p. py_float rnd parse preferred_price = Inr p) \<and>
       (\<exists>l. py_float rnd parse listing_price = Inr l) \<and>
       py_float rnd parse cpf_oa_balance = Inl ValueError"
    by (simp only: get_marker_color_gray_iff convert_prices_ValueError_iff)
  have colours:
    "get_marker_color rnd parse preferred_price listing_price (PyNum s) flat_type
       cpf_oa_balance \<in> {Inr ''green'', Inr ''yellow'', Inr ''red''}"
    if "py_float rnd parse preferred_price = Inr p"
      and "py_float rnd parse listing_price = Inr l"
      and "py_float rnd parse cpf_oa_balance = Inr c" for p l c
  proof (rule get_marker_color_after_conversion)
    show "convert_prices rnd parse preferred_price listing_price cpf_oa_balance = Inr (p, l, c)"
      using that by (simp add: convert_prices_Inr_iff)
  qed
  have any_failure:
    "get_marker_color rnd parse preferred_price listing_price (PyNum s) flat_type
       cpf_oa_balance = Inr ''gray'' \<longleftrightarrow>
     py_float rnd parse preferred_price = Inl ValueError \<or>
     py_float rnd parse listing_price = Inl ValueError \<or>
     py_float rnd parse cpf_oa_balance = Inl ValueError"
    if "preferred_price \<noteq> PyNone" and "listing_price \<noteq> PyNone"
      and "cpf_oa_balance \<noteq> PyNone"
      and "py_float rnd parse preferred_price \<noteq> Inl OverflowError"
      and "py_float rnd parse listing_price \<noteq> Inl OverflowError"
      and "py_float rnd parse cpf_oa_balance \<noteq> Inl OverflowError"
    using first_failure py_float_cases [OF that(1) that(4)] py_float_cases [OF that(2) that(5)]
      py_float_cases [OF that(3) that(6)]
    by auto
  from first_failure colours any_failure show ?thesis
    by blast
qed

theorem get_marker_color_gray_witness:
  "get_marker_color round_exact float_decimal (PyNum 500000) (PyStr ''abc'') (PyNum 4000)
     (PyStr ''4-Room'') (PyNum 20000) = Inr ''gray'' \<and>
   get_marker_color round_exact float_decimal (PyStr ''460000'') (PyNum 460000) (PyNum 4000)
     (PyStr ''4-Room'') (PyNum 20000) \<in> {Inr ''green'', Inr ''yellow'', Inr ''red''}"
  using get_marker_color_gray [of "PyNum 500000" "PyStr ''abc''" "PyNum 20000" round_exact
      float_decimal 4000 "PyStr ''4-Room''"]
    get_marker_color_gray [of "PyStr ''460000''" "PyNum 460000" "PyNum 20000" round_exact
      float_decimal 4000 "PyStr ''4-Room''"]
  by (simp add: py_float_def float_decimal_def decimal_literal_values)

text \<open>
  C2 as stated fails: a preferred price of -5, as a number or as the text \<open>-5\<close>, is not a
  non-negative number, yet the classifier converts it and answers green for a listing
  price of 100, a salary of 4000, a 4-room flat and no CPF balance.
\<close>

theorem get_marker_color_gray_counterexample:
  "decimal_literal ''-5'' = Some (- 5) \<and>
   get_marker_color round_exact float_decimal (PyStr ''-5'') (PyNum 100) (PyNum 4000)
     (PyStr ''4-Room'') (PyNum 0) = Inr ''green'' \<and>
   get_marker_color round_exact float_decimal (PyNum (- 5)) (PyNum 100) (PyNum 4000)
     (PyStr ''4-Room'') (PyNum 0) = Inr ''green''"
  by (simp add: get_marker_color_converted [OF _ _ _ calculate_grant_4000_4_room]
        py_float_def float_decimal_def decimal_literal_values round_exact_def)

text \<open>
  C5, as the code has it. Nothing is clamped, and what can go negative is the adjusted
  price \<open>(listing_price - total_grants) - cpf_oa_balance\<close>, computed in double arithmetic:
  when the adjusted price is at most 0 and the preferred price at least 0, the result is
  green. For all inputs that convert, the result is red exactly when neither
  \<open>adjusted_price \<le> preferred_price\<close> nor \<open>preferred_price < adjusted_price \<le>
  preferred_price * 1.05\<close> holds for the doubles: always when the adjusted price or the
  preferred price is \<open>nan\<close>, and otherwise exactly when the adjusted price is above both
  the preferred price and the rounded product. Grants and CPF above the preferred price
  do not make a listing red.
\<close>

theorem get_marker_color_no_clamping:
  assumes "py_float rnd parse preferred_price = Inr p"
    and "py_float rnd parse listing_price = Inr l"
    and "py_float rnd parse cpf_oa_balance = Inr c"
    and "calculate_grant sal flat_type = Inr g"
    and "a = float_sub rnd (float_sub rnd l (Fin (real_of_int g))) c"
    and "q = float_mul rnd p (Fin tolerance_factor)"
  shows "(float_le a (Fin 0) \<and> float_le (Fin 0) p \<longrightarrow>
            get_marker_color rnd parse preferred_price listing_price sal flat_type cpf_oa_balance
              = Inr ''green'') \<and>
         (get_marker_color rnd parse preferred_price listing_price sal flat_type cpf_oa_balance
            = Inr ''red'' \<longleftrightarrow> \<not> float_le a p \<and> \<not> (float_lt p a \<and> float_le a q)) \<and>
         (a = NaN \<or> p = NaN \<longrightarrow>
            get_marker_color rnd parse preferred_price listing_price sal flat_type cpf_oa_balance
              = Inr ''red'') \<and>
         (a \<noteq> NaN \<and> p \<noteq> NaN \<and> q \<noteq> NaN \<longrightarrow>
            (get_marker_color rnd parse preferred_price listing_price sal flat_type
               cpf_oa_balance = Inr ''red'' \<longleftrightarrow> float_lt p a \<and> float_lt q a))"
proof -
  have colour:
    "get_marker_color rnd parse preferred_price listing_price sal flat_type cpf_oa_balance =
       Inr (if float_le a p then ''green''
            else if float_lt p a \<and> float_le a q then ''yellow'' else ''red'')"
    unfolding assms(5) assms(6) by (rule get_marker_color_converted [OF assms(1-4)])
  have covered: "float_le a (Fin 0) \<and> float_le (Fin 0) p \<longrightarrow>
      get_marker_color rnd parse preferred_price listing_price sal flat_type cpf_oa_balance
        = Inr ''green''"
    using float_le_trans [of a "Fin 0" p] by (auto simp: colour)
  have red: "get_marker_color rnd parse preferred_price listing_price sal flat_type
      cpf_oa_balance = Inr ''red'' \<longleftrightarrow> \<not> float_le a p \<and> \<not> (float_lt p a \<and> float_le a q)"
    by (auto simp: colour)
  have nan: "a = NaN \<or> p = NaN \<longrightarrow>
      get_marker_color rnd parse preferred_price listing_price sal flat_type cpf_oa_balance
        = Inr ''red''"
    unfolding red using float_le_NaN_right [of a] float_lt_NaN_right [of p] by auto
  have ordered: "a \<noteq> NaN \<and> p \<noteq> NaN \<and> q \<noteq> NaN \<longrightarrow>
      (get_marker_color rnd parse preferred_price listing_price sal flat_type
         cpf_oa_balance = Inr ''red'' \<longleftrightarrow> float_lt p a \<and> float_lt q a)"
    unfolding red using float_not_le_iff [of a p] float_not_le_iff [of a q] by auto
  from covered red nan ordered show ?thesis
    by blast
qed

theorem get_marker_color_no_clamping_witness:
  "get_marker_color round_exact float_decimal (PyNum 50000) (PyNum 100000) (PyNum 4000)
     (PyStr ''4-Room'') (PyNum 20000) = Inr ''green'' \<and>
   get_marker_color round_exact float_decimal (PyNum 524288) (PyNum 680000) (PyNum 4000)
     (PyStr ''4-Room'') (PyNum 20000) = Inr ''red'' \<and>
   get_marker_color round_exact float_decimal (PyFloat NaN) (PyNum 100000) (PyNum 4000)
     (PyStr ''4-Room'') (PyNum 20000) = Inr ''red''"
proof -
  have num: "\<And>f. py_float round_exact float_decimal (PyFloat f) = Inr f"
    by (rule py_float_PyFloat)
  note covered = get_marker_color_no_clamping [OF num [of "Fin 50000"] num [of "Fin 100000"]
      num [of "Fin 20000"] calculate_grant_4000_4_room refl refl]
  note beyond = get_marker_color_no_clamping [OF num [of "Fin 524288"] num [of "Fin 680000"]
      num [of "Fin 20000"] calculate_grant_4000_4_room refl refl]
  note not_a_number = get_marker_color_no_clamping [OF num [of NaN] num [of "Fin 100000"]
      num [of "Fin 20000"] calculate_grant_4000_4_room refl refl]
  show ?thesis
    using covered beyond not_a_number
    by (simp add: round_exact_def tolerance_factor_def)
qed

text \<open>
  C5 as stated fails: with a preferred price of 50000, a salary of 4000, a 4-room flat
  (grant 100000) and a CPF balance of 20000, the grants and the CPF balance exceed the
  preferred price, the listing price 100000 is positive, and the result is green, where
  the stated rule answers red. All the numbers are whole, so that no subtraction rounds.
\<close>

theorem get_marker_color_no_clamping_counterexample:
  "calculate_grant (PyNum 4000) (PyStr ''4-Room'') = Inr 100000 \<and>
   (50000::real) < 100000 + 20000 \<and> (0::real) < 100000 \<and>
   get_marker_color round_exact float_decimal (PyNum 50000) (PyNum 100000) (PyNum 4000)
     (PyStr ''4-Room'') (PyNum 20000) = Inr ''green'' \<and>
   spec_classifyListing 50000 100000 100000 20000 = ''red''"
  by (simp add: get_marker_color_converted [OF _ _ _ calculate_grant_4000_4_room]
        py_float_PyFloat calculate_grant_4000_4_room spec_classifyListing_def round_exact_def)


section \<open>The interest rate\<close>

lemma js_gt_not_le: "js_gt x c \<Longrightarrow> \<not> js_le x c"
  by (cases x) (simp_all add: js_gt_def js_le_def)

text \<open>
  C6. \<open>getInterestRate\<close> returns a text for every loan type and every tenure, and the text
  follows the rate table: an HDB Housing Loan has 2.6% per annum whatever the tenure; a
  DBS 5 Year Fixed Package has 2.5% for the first 5 years when the tenure is at most 5 and
  the same followed by 4.48% when the tenure is above 5; every other loan type gives
  Unknown Loan Type.
\<close>

theorem getInterestRate_table:
  "getInterestRate ''HDB Housing Loan'' loanTenure = ''2.6% per annum'' \<and>
   (js_le loanTenure 5 \<longrightarrow>
      getInterestRate ''DBS 5 Year Fixed Package'' loanTenure
        = ''2.5% per annum for the first 5 years'') \<and>
   (js_gt loanTenure 5 \<longrightarrow>
      getInterestRate ''DBS 5 Year Fixed Package'' loanTenure
        = ''2.5% per annum for the first 5 years, then 4.48% per annum'') \<and>
   (loanType \<noteq> ''HDB Housing Loan'' \<and> loanType \<noteq> ''DBS 5 Year Fixed Package'' \<longrightarrow>
      getInterestRate loanType loanTenure = ''Unknown Loan Type'') \<and>
   getInterestRate loanType loanTenure \<in>
     {''2.6% per annum'', ''2.5% per annum for the first 5 years'',
      ''2.5% per annum for the first 5 years, then 4.48% per annum'', ''Unknown Loan Type''}"
proof -
  have hdb: "getInterestRate ''HDB Housing Loan'' loanTenure = ''2.6% per annum''"
    by (simp add: getInterestRate_def)
  have short: "getInterestRate ''DBS 5 Year Fixed Package'' loanTenure
                 = ''2.5% per annum for the first 5 years''"
    if "js_le loanTenure 5"
    using that by (simp add: getInterestRate_def)
  have long: "getInterestRate ''DBS 5 Year Fixed Package'' loanTenure
                = ''2.5% per annum for the first 5 years, then 4.48% per annum''"
    if "js_gt loanTenure 5"
    using js_gt_not_le [OF that] by (simp add: getInterestRate_def)
  have other: "getInterestRate loanType loanTenure = ''Unknown Loan Type''"
    if "loanType \<noteq> ''HDB Housing Loan''" and "loanType \<noteq> ''DBS 5 Year Fixed Package''"
    using that by (simp add: getInterestRate_def)
  have range: "getInterestRate loanType loanTenure \<in>
     {''2.6% per annum'', ''2.5% per annum for the first 5 years'',
      ''2.5% per annum for the first 5 years, then 4.48% per annum'', ''Unknown Loan Type''}"
    by (simp add: getInterestRate_def)
  from hdb short long other range show ?thesis
    by blast
qed

theorem getInterestRate_table_witness:
  "js_le (JsNum 5) 5 \<and> js_gt (JsNum 10) 5 \<and>
   getInterestRate ''DBS 5 Year Fixed Package'' (JsNum 5)
     = ''2.5% per annum for the first 5 years'' \<and>
   getInterestRate ''DBS 5 Year Fixed Package'' (JsNum 10)
     = ''2.5% per annum for the first 5 years, then 4.48% per annum'' \<and>
   getInterestRate ''Unrecognized'' (JsNum 5) = ''Unknown Loan Type''"
  using getInterestRate_table [of "JsNum 5" "''Unrecognized''"]
    getInterestRate_table [of "JsNum 10" "''Unrecognized''"]
  by (simp add: js_le_def js_gt_def)


section \<open>The grant message of the preferences screen\<close>

text \<open>
  C8. When \<open>parseFloat(salary)\<close> is at most 7000, \<open>checkGrantEligibility\<close> reports a singles
  grant of 25000 exactly for the flat types 5-Room and Executive and of 40000 for every
  other flat type: alone when the salary is above 4500, and with the enhanced grant of
  60000 added (85000 and 100000) when it is at most 4500.
\<close>

theorem checkGrantEligibility_singles:
  assumes "js_le (parseFloat (salary st)) 7000"
  shows "((hdbType st = ''5-Room'' \<or> hdbType st = ''Executive'') \<and>
          \<not> js_le (parseFloat (salary st)) 4500 \<longrightarrow>
            checkGrantEligibility parseFloat st =
              ''Eligible for: HDB Singles Grant. '' @ [CHR 0x0A] @ ''Amount: $25,000'') \<and>
         (hdbType st \<noteq> ''5-Room'' \<and> hdbType st \<noteq> ''Executive'' \<and>
          \<not> js_le (parseFloat (salary st)) 4500 \<longrightarrow>
            checkGrantEligibility parseFloat st =
              ''Eligible for: HDB Singles Grant. '' @ [CHR 0x0A] @ ''Amount: $40,000'') \<and>
         ((hdbType st = ''5-Room'' \<or> hdbType st = ''Executive'') \<and>
          js_le (parseFloat (salary st)) 4500 \<longrightarrow>
            checkGrantEligibility parseFloat st =
              ''Eligible for: HDB Singles Grant and Enhanced CPF Housing Grant. '' @ [CHR 0x0A] @
              ''Total Amount: $85,000'') \<and>
         (hdbType st \<noteq> ''5-Room'' \<and> hdbType st \<noteq> ''Executive'' \<and>
          js_le (parseFloat (salary st)) 4500 \<longrightarrow>
            checkGrantEligibility parseFloat st =
              ''Eligible for: HDB Singles Grant and Enhanced CPF Housing Grant. '' @ [CHR 0x0A] @
              ''Total Amount: $100,000'')"
  using assms
  by (simp add: checkGrantEligibility_def Let_def formatAmount_values)

theorem checkGrantEligibility_singles_witness:
  "js_le (parseFloat_decimal ''6000'') 7000 \<and> js_le (parseFloat_decimal ''4000'') 4500 \<and>
   checkGrantEligibility parseFloat_decimal
       (initial_state\<lparr>salary := ''6000'', hdbType := ''Executive''\<rparr>) =
     ''Eligible for: HDB Singles Grant. '' @ [CHR 0x0A] @ ''Amount: $25,000'' \<and>
   checkGrantEligibility parseFloat_decimal
       (initial_state\<lparr>salary := ''6000'', hdbType := ''''\<rparr>) =
     ''Eligible for: HDB Singles Grant. '' @ [CHR 0x0A] @ ''Amount: $40,000'' \<and>
   checkGrantEligibility parseFloat_decimal
       (initial_state\<lparr>salary := ''4000'', hdbType := ''5-Room''\<rparr>) =
     ''Eligible for: HDB Singles Grant and Enhanced CPF Housing Grant. '' @ [CHR 0x0A] @
     ''Total Amount: $85,000'' \<and>
   checkGrantEligibility parseFloat_decimal
       (initial_state\<lparr>salary := ''4000'', hdbType := ''1-Room''\<rparr>) =
     ''Eligible for: HDB Singles Grant and Enhanced CPF Housing Grant. '' @ [CHR 0x0A] @
     ''Total Amount: $100,000''"
  using checkGrantEligibility_singles
      [of parseFloat_decimal "initial_state\<lparr>salary := ''6000'', hdbType := ''Executive''\<rparr>"]
    checkGrantEligibility_singles
      [of parseFloat_decimal "initial_state\<lparr>salary := ''6000'', hdbType := ''''\<rparr>"]
    checkGrantEligibility_singles
      [of parseFloat_decimal "initial_state\<lparr>salary := ''4000'', hdbType := ''5-Room''\<rparr>"]
    checkGrantEligibility_singles
      [of parseFloat_decimal "initial_state\<lparr>salary := ''4000'', hdbType := ''1-Room''\<rparr>"]
  by (simp add: initial_state_def parseFloat_decimal_values js_le_def)

text \<open>
  C9. Whenever \<open>parseFloat(salary)\<close> is above 7000, \<open>checkGrantEligibility\<close> returns
  "Not eligible for any grants." for every flat type, so no grant is reported.
\<close>

theorem checkGrantEligibility_above_7000:
  assumes "js_gt (parseFloat (salary st)) 7000"
  shows "checkGrantEligibility parseFloat st = ''Not eligible for any grants.''"
  using js_gt_not_le [OF assms]
  by (simp add: checkGrantEligibility_def)

theorem checkGrantEligibility_above_7000_witness:
  "js_gt (parseFloat_decimal ''8000'') 7000 \<and>
   checkGrantEligibility parseFloat_decimal
       (initial_state\<lparr>salary := ''8000'', hdbType := ''3-Room''\<rparr>) =
     ''Not eligible for any grants.''"
  using checkGrantEligibility_above_7000
      [of parseFloat_decimal "initial_state\<lparr>salary := ''8000'', hdbType := ''3-Room''\<rparr>"]
  by (simp add: initial_state_def parseFloat_decimal_values js_gt_def)


section \<open>Saving the preferences\<close>

text \<open>
  C10, as the code has it. Whenever the loan type is HDB Housing Loan and
  \<open>parseFloat(salary)\<close> is above 7000, \<open>handleSavePreferences\<close> returns before any POST, so
  nothing is sent to the backend. The message it sets is the HDB Loan message when the
  salary, the CPF balance, the flat type and the preferred price are all filled in, and
  "Please fill out all fields." when one of them is empty, because that check comes
  first.
\<close>

theorem handleSavePreferences_hdb_loan:
  assumes "housingLoanType st = ''HDB Housing Loan''"
    and "js_gt (parseFloat (salary st)) 7000"
  shows "snd (handleSavePreferences parseFloat response st) = [] \<and>
         (salary st \<noteq> [] \<and> cpfBalance st \<noteq> [] \<and> hdbType st \<noteq> [] \<and> preferredPrice st \<noteq> [] \<longrightarrow>
            handleSavePreferences parseFloat response st =
              (st\<lparr>errorMessage :=
                    ''HDB Loan is only allowed if salary is less than or equal to 7000.''\<rparr>, [])) \<and>
         (salary st = [] \<or> cpfBalance st = [] \<or> hdbType st = [] \<or> preferredPrice st = [] \<longrightarrow>
            handleSavePreferences parseFloat response st =
              (st\<lparr>errorMessage := ''Please fill out all fields.''\<rparr>, []))"
  using assms
  by (simp add: handleSavePreferences_def Let_def)

theorem handleSavePreferences_hdb_loan_witness:
  "js_gt (parseFloat_decimal ''8000'') 7000 \<and>
   handleSavePreferences parseFloat_decimal ResponseOk
       (initial_state\<lparr>salary := ''8000'', cpfBalance := ''20000'', hdbType := ''3-Room'',
          preferredPrice := ''300000'', housingLoanType := ''HDB Housing Loan''\<rparr>) =
     (initial_state\<lparr>salary := ''8000'', cpfBalance := ''20000'', hdbType := ''3-Room'',
          preferredPrice := ''300000'', housingLoanType := ''HDB Housing Loan'',
          errorMessage :=
            ''HDB Loan is only allowed if salary is less than or equal to 7000.''\<rparr>, [])"
  using handleSavePreferences_hdb_loan
      [of "initial_state\<lparr>salary := ''8000'', cpfBalance := ''20000'', hdbType := ''3-Room'',
             preferredPrice := ''300000'', housingLoanType := ''HDB Housing Loan''\<rparr>"
          parseFloat_decimal ResponseOk]
  by (simp add: initial_state_def parseFloat_decimal_values js_gt_def)

text \<open>
  C10 as stated fails: with the CPF balance left empty, a salary of 8000 and the HDB
  Housing Loan, the message set is "Please fill out all fields.", not the HDB Loan
  message.
\<close>

theorem handleSavePreferences_hdb_loan_counterexample:
  "js_gt (parseFloat_decimal ''8000'') 7000 \<and>
   handleSavePreferences parseFloat_decimal ResponseOk
       (initial_state\<lparr>salary := ''8000'', cpfBalance := '''', hdbType := ''3-Room'',
          preferredPrice := ''300000'', housingLoanType := ''HDB Housing Loan''\<rparr>) =
     (initial_state\<lparr>salary := ''8000'', cpfBalance := '''', hdbType := ''3-Room'',
          preferredPrice := ''300000'', housingLoanType := ''HDB Housing Loan'',
          errorMessage := ''Please fill out all fields.''\<rparr>, []) \<and>
   ''Please fill out all fields.'' \<noteq>
     ''HDB Loan is only allowed if salary is less than or equal to 7000.''"
  by (simp add: handleSavePreferences_def Let_def initial_state_def parseFloat_decimal_values
        js_gt_def)

end
